theory Spec2Isabelle
  imports Complex_Main "HOL-Library.Sublist"
begin

section \<open>Python strings\<close>

text \<open>
  A Python \<open>str\<close> is a sequence of code points and \<open>len\<close> counts code points.  The
  model takes a text to be a \<open>string\<close> whose characters are the code points below 256
  (the Latin-1 range), so that \<open>length\<close> is \<open>len\<close>.  The character classes below are
  those of CPython on that range: \<open>str.isspace\<close> (which \<open>str.split()\<close>, \<open>str.strip()\<close>
  and the pattern \<open>\s\<close> of \<open>re\<close> share), \<open>str.lower\<close>, and the word characters of the
  pattern \<open>\w\<close>.
\<close>

definition py_isspace :: "char \<Rightarrow> bool" where
  "py_isspace c =
     (let n = (of_char c :: nat)
      in (9 \<le> n \<and> n \<le> 13) \<or> (28 \<le> n \<and> n \<le> 32) \<or> n = 133 \<or> n = 160)"

definition py_lower_char :: "char \<Rightarrow> char" where
  "py_lower_char c =
     (let n = (of_char c :: nat)
      in if (65 \<le> n \<and> n \<le> 90) \<or> (192 \<le> n \<and> n \<le> 222 \<and> n \<noteq> 215)
         then char_of (n + 32) else c)"

definition py_lower :: "string \<Rightarrow> string" where
  "py_lower s = map py_lower_char s"

definition py_isword :: "char \<Rightarrow> bool" where
  "py_isword c =
     (let n = (of_char c :: nat)
      in (48 \<le> n \<and> n \<le> 57) \<or> (65 \<le> n \<and> n \<le> 90) \<or> n = 95 \<or> (97 \<le> n \<and> n \<le> 122)
         \<or> n = 170 \<or> n = 178 \<or> n = 179 \<or> n = 181 \<or> n = 185 \<or> n = 186
         \<or> (188 \<le> n \<and> n \<le> 190) \<or> (192 \<le> n \<and> n \<le> 214) \<or> (216 \<le> n \<and> n \<le> 246)
         \<or> (248 \<le> n \<and> n \<le> 255))"

definition ascii_upper :: "char \<Rightarrow> bool" where
  "ascii_upper c = (let n = (of_char c :: nat) in 65 \<le> n \<and> n \<le> 90)"

definition ascii_lower :: "char \<Rightarrow> bool" where
  "ascii_lower c = (let n = (of_char c :: nat) in 97 \<le> n \<and> n \<le> 122)"

definition ascii_digit :: "char \<Rightarrow> bool" where
  "ascii_digit c = (let n = (of_char c :: nat) in 48 \<le> n \<and> n \<le> 57)"

definition sentiment_punct :: "char \<Rightarrow> bool" where
  "sentiment_punct c = (c = CHR ''.'' \<or> c = CHR '','' \<or> c = CHR ''!'' \<or> c = CHR ''?'')"

text \<open>\<open>str.strip()\<close>: whitespace is dropped at both ends.\<close>

definition py_strip :: "string \<Rightarrow> string" where
  "py_strip s = rev (dropWhile py_isspace (rev (dropWhile py_isspace s)))"

text \<open>
  \<open>str.split()\<close> without a separator: the maximal runs of non-whitespace characters, in
  order; no empty word is produced.
\<close>

function py_split :: "string \<Rightarrow> string list" where
  "py_split s =
     (let r = dropWhile py_isspace s
      in if r = [] then []
         else takeWhile (\<lambda>c. \<not> py_isspace c) r # py_split (dropWhile (\<lambda>c. \<not> py_isspace c) r))"
  by pat_completeness auto
termination
proof (relation "measure length", goal_cases)
  case 1
  show ?case by simp
next
  case (2 s r)
  then obtain c cs where r: "dropWhile py_isspace s = c # cs"
    by (cases "dropWhile py_isspace s") auto
  then have "\<not> py_isspace c"
    using hd_dropWhile[of py_isspace s] by auto
  then have "length (dropWhile (\<lambda>c. \<not> py_isspace c) (c # cs)) \<le> length cs"
    by (simp add: length_dropWhile_le)
  moreover have "length (c # cs) \<le> length s"
    using length_dropWhile_le[of py_isspace s] r by simp
  ultimately show ?case using 2 r by simp
qed

declare py_split.simps [simp del]

text \<open>\<open>str.count(sub)\<close> for a one-character and for a doubled-character \<open>sub\<close>: the
  number of non-overlapping occurrences, scanning from the left.\<close>

definition count_char :: "char \<Rightarrow> string \<Rightarrow> nat" where
  "count_char c s = length (filter (\<lambda>x. x = c) s)"

fun count_double :: "char \<Rightarrow> string \<Rightarrow> nat" where
  "count_double c (x # y # zs) =
     (if x = c \<and> y = c then Suc (count_double c zs) else count_double c (y # zs))"
| "count_double c _ = 0"

section \<open>Regular-expression substitutions of the preprocessing functions\<close>

text \<open>
  \<open>re.sub(pattern, repl, text)\<close> replaces the leftmost non-overlapping matches.  Each
  pattern of the scripts is modelled by the scan it induces.

  \<open>re.sub(r'\s+', ' ', text)\<close>: every maximal run of whitespace becomes one space.
\<close>

function collapse_ws :: "string \<Rightarrow> string" where
  "collapse_ws [] = []"
| "collapse_ws (c # cs) =
     (if py_isspace c then CHR '' '' # collapse_ws (dropWhile py_isspace cs)
      else c # collapse_ws cs)"
  by pat_completeness auto
termination
  by (relation "measure length") (auto simp: length_dropWhile_le le_imp_less_Suc)

text \<open>
  \<open>re.sub(r'[^a-zA-Z\s.,!?]', '', text)\<close> and \<open>re.sub(r'[^a-zA-Z0-9\s.,!?]', '', text)\<close>:
  the characters outside the class are deleted.
\<close>

definition keep_alpha :: "char \<Rightarrow> bool" where
  "keep_alpha c = (ascii_lower c \<or> ascii_upper c \<or> py_isspace c \<or> sentiment_punct c)"

definition keep_alnum :: "char \<Rightarrow> bool" where
  "keep_alnum c =
     (ascii_lower c \<or> ascii_upper c \<or> ascii_digit c \<or> py_isspace c \<or> sentiment_punct c)"

text \<open>
  \<open>re.sub(r'http\S+|www\S+|https\S+', '', text)\<close>.  A match starts where the text reads
  \<open>http\<close> or \<open>www\<close> followed by at least one non-whitespace character (the third
  alternative can only match where the first already does), and, \<open>\S+\<close> being greedy, it
  runs to the next whitespace character or to the end of the text.
\<close>

definition lit_then_nonspace :: "string \<Rightarrow> string \<Rightarrow> bool" where
  "lit_then_nonspace lit s =
     (take (length lit) s = lit \<and>
      (case drop (length lit) s of [] \<Rightarrow> False | c # _ \<Rightarrow> \<not> py_isspace c))"

definition url_at :: "string \<Rightarrow> bool" where
  "url_at s = (lit_then_nonspace ''http'' s \<or> lit_then_nonspace ''www'' s
               \<or> lit_then_nonspace ''https'' s)"

function remove_urls :: "string \<Rightarrow> string" where
  "remove_urls [] = []"
| "remove_urls (c # cs) =
     (if url_at (c # cs) then remove_urls (dropWhile (\<lambda>x. \<not> py_isspace x) cs)
      else c # remove_urls cs)"
  by pat_completeness auto
termination
  by (relation "measure length") (auto simp: length_dropWhile_le le_imp_less_Suc)

text \<open>Whether some match of the URL pattern occurs in a text.\<close>

fun has_url :: "string \<Rightarrow> bool" where
  "has_url [] = False"
| "has_url (c # cs) = (url_at (c # cs) \<or> has_url cs)"

text \<open>
  \<open>re.sub(r'@\w+|#\w+', '', text)\<close>: a match is \<open>@\<close> or \<open>#\<close> followed by a maximal
  non-empty run of word characters.
\<close>

definition mention_at :: "string \<Rightarrow> bool" where
  "mention_at s =
     (case s of
        c # d # _ \<Rightarrow> (c = CHR ''@'' \<or> c = CHR ''#'') \<and> py_isword d
      | _ \<Rightarrow> False)"

function remove_mentions :: "string \<Rightarrow> string" where
  "remove_mentions [] = []"
| "remove_mentions (c # cs) =
     (if mention_at (c # cs) then remove_mentions (dropWhile py_isword cs)
      else c # remove_mentions cs)"
  by pat_completeness auto
termination
  by (relation "measure length") (auto simp: length_dropWhile_le le_imp_less_Suc)

fun has_mention :: "string \<Rightarrow> bool" where
  "has_mention [] = False"
| "has_mention (c # cs) = (mention_at (c # cs) \<or> has_mention cs)"

section \<open>Text preprocessing\<close>

text \<open>
  A cell of the data set is a string or the missing value \<open>NaN\<close>, for which
  \<open>pd.isna\<close> holds.
\<close>

datatype cell = NaN | Str string

text \<open>\<open>Fast85AccuracyModel.smart_preprocess_text\<close> (fast_85_accuracy_model.py).\<close>

fun smart_preprocess_text :: "cell \<Rightarrow> string" where
  "smart_preprocess_text NaN = []"
| "smart_preprocess_text (Str text) =
     py_strip (collapse_ws (filter keep_alpha (py_lower text)))"

text \<open>\<open>preprocess_text\<close> of convert_to_coreml.py.\<close>

fun preprocess_text_coreml :: "cell \<Rightarrow> string" where
  "preprocess_text_coreml NaN = []"
| "preprocess_text_coreml (Str text) =
     py_strip (collapse_ws (filter keep_alpha (py_lower text)))"

text \<open>\<open>EmotionModelTrainer.preprocess_text\<close> (train_custom_model.py): URLs, mentions and
  hashtags, whitespace runs, special characters, in this order, then \<open>strip\<close>.\<close>

fun preprocess_text_trainer :: "cell \<Rightarrow> string" where
  "preprocess_text_trainer NaN = []"
| "preprocess_text_trainer (Str text) =
     py_strip (filter keep_alnum (collapse_ws (remove_mentions (remove_urls (py_lower text)))))"

text \<open>\<open>AdvancedEnsembleModel.advanced_preprocess_text\<close> (advanced_ensemble_model.py).\<close>

fun advanced_preprocess_text :: "cell \<Rightarrow> string" where
  "advanced_preprocess_text NaN = []"
| "advanced_preprocess_text (Str text) =
     py_strip (collapse_ws (filter keep_alpha (remove_mentions (remove_urls (py_lower text)))))"

section \<open>Shape of a preprocessed text\<close>

text \<open>The characters a cleaned text may contain: a lowercase letter \<open>a\<close> to \<open>z\<close>, the
  space, and the four punctuation characters that the scripts keep.\<close>

definition clean_char :: "char \<Rightarrow> bool" where
  "clean_char c = (ascii_lower c \<or> c = CHR '' '' \<or> sentiment_punct c)"

text \<open>No whitespace at either end.\<close>

definition trimmed :: "string \<Rightarrow> bool" where
  "trimmed s = (s = [] \<or> (\<not> py_isspace (hd s) \<and> \<not> py_isspace (last s)))"

fun no_double_space :: "string \<Rightarrow> bool" where
  "no_double_space (x # y # zs) =
     (\<not> (x = CHR '' '' \<and> y = CHR '' '') \<and> no_double_space (y # zs))"
| "no_double_space _ = True"

text \<open>No two adjacent whitespace characters of any kind.\<close>

fun no_adj_ws :: "string \<Rightarrow> bool" where
  "no_adj_ws (x # y # zs) = (\<not> (py_isspace x \<and> py_isspace y) \<and> no_adj_ws (y # zs))"
| "no_adj_ws _ = True"

text \<open>The trainer's preprocessing also keeps the digits.\<close>

definition clean_or_digit :: "char \<Rightarrow> bool" where
  "clean_or_digit c = (clean_char c \<or> ascii_digit c)"

text \<open>The literal prefixes of the URL pattern.\<close>

definition url_lit :: "string \<Rightarrow> bool" where
  "url_lit l = (l = ''http'' \<or> l = ''www'' \<or> l = ''https'')"

section \<open>Vectors, matrices and library outcomes\<close>

text \<open>
  The floating-point numbers of numpy are modelled as real numbers: rounding is not
  represented.  A one-dimensional array is a list, a two-dimensional array the list of
  its rows.  An exception raised by Python or by a library is a value of type
  \<open>py_error\<close>; a computation that may raise returns \<open>py_error + 'a\<close>.
\<close>

type_synonym vector = "real list"
type_synonym matrix = "real list list"
type_synonym embeddings = "string \<rightharpoonup> vector"

datatype py_error =
    ValueError | NotFittedError | AttributeError | FileNotFoundError | KeyError
  | ConversionError | OSError | TypeError | NanResult

text \<open>\<open>self.embedding_dim\<close>, set to 100 by the constructors and never assigned again.\<close>

definition embedding_dim :: nat where
  "embedding_dim = 100"

definition np_zeros :: "nat \<Rightarrow> vector" where
  "np_zeros n = replicate n 0"

text \<open>
  \<open>acc += v\<close> on arrays: the element-wise sum when the shapes agree, \<open>v\<close> broadcast when
  it has exactly one element, and a \<open>ValueError\<close> otherwise.
\<close>

definition np_iadd :: "vector \<Rightarrow> vector \<Rightarrow> py_error + vector" where
  "np_iadd acc v =
     (if length v = length acc then Inr (map (\<lambda>(a, b). a + b) (zip acc v))
      else if length v = 1 then Inr (map (\<lambda>a. a + hd v) acc)
      else Inl ValueError)"

text \<open>
  \<open>acc /= k\<close>.  For \<open>k = 0\<close> numpy would store NaN or infinity, which are no real
  numbers; the model marks that outcome as \<open>NanResult\<close>.
\<close>

definition np_itruediv :: "vector \<Rightarrow> nat \<Rightarrow> py_error + vector" where
  "np_itruediv acc k = (if k = 0 then Inl NanResult else Inr (map (\<lambda>a. a / real k) acc))"

definition np_mean :: "vector \<Rightarrow> real" where
  "np_mean xs = sum_list xs / real (length xs)"

text \<open>A loop that evaluates a fallible step for each element stops at the first error.\<close>

fun collect :: "('e + 'a) list \<Rightarrow> 'e + 'a list" where
  "collect [] = Inr []"
| "collect (r # rs) =
     (case r of
        Inl e \<Rightarrow> Inl e
      | Inr a \<Rightarrow> (case collect rs of Inl e \<Rightarrow> Inl e | Inr as \<Rightarrow> Inr (a # as)))"

text \<open>
  \<open>np.hstack\<close> of three two-dimensional arrays joins their rows; it raises when the
  numbers of rows differ.  An empty list of rows converts to a one-dimensional array
  of shape \<open>(0,)\<close>, which cannot be joined with a two-dimensional one.
\<close>

definition np_hstack3 :: "matrix \<Rightarrow> matrix \<Rightarrow> matrix \<Rightarrow> py_error + matrix" where
  "np_hstack3 a b c =
     (if a = [] \<or> c = [] then Inl ValueError
      else if length a = length b \<and> length b = length c
           then Inr (map (\<lambda>(x, y, z). x @ y @ z) (zip a (zip b c)))
      else Inl ValueError)"

section \<open>GloVe averaging\<close>

text \<open>\<open>Fast85AccuracyModel.text_to_glove_vector\<close>: the loop over the words, then the
  guarded division.\<close>

fun glove_loop_fast85 ::
  "embeddings \<Rightarrow> string list \<Rightarrow> vector \<Rightarrow> nat \<Rightarrow> py_error + (vector \<times> nat)" where
  "glove_loop_fast85 E [] acc k = Inr (acc, k)"
| "glove_loop_fast85 E (w # ws) acc k =
     (case E w of
        None \<Rightarrow> glove_loop_fast85 E ws acc k
      | Some v \<Rightarrow>
          (case np_iadd acc v of
             Inl e \<Rightarrow> Inl e
           | Inr acc' \<Rightarrow> glove_loop_fast85 E ws acc' (k + 1)))"

definition text_to_glove_vector_fast85 ::
  "embeddings \<Rightarrow> string \<Rightarrow> nat \<Rightarrow> py_error + vector" where
  "text_to_glove_vector_fast85 E text max_length =
     (case glove_loop_fast85 E (take max_length (py_split text)) (np_zeros embedding_dim) 0 of
        Inl e \<Rightarrow> Inl e
      | Inr (acc, word_count) \<Rightarrow>
          if word_count > 0 then np_itruediv acc word_count else Inr acc)"

text \<open>\<open>text_to_glove_vector\<close> of convert_to_coreml.py, with the literal dimension 100.\<close>

fun glove_loop_coreml ::
  "embeddings \<Rightarrow> string list \<Rightarrow> vector \<Rightarrow> nat \<Rightarrow> py_error + (vector \<times> nat)" where
  "glove_loop_coreml E [] acc k = Inr (acc, k)"
| "glove_loop_coreml E (w # ws) acc k =
     (case E w of
        None \<Rightarrow> glove_loop_coreml E ws acc k
      | Some v \<Rightarrow>
          (case np_iadd acc v of
             Inl e \<Rightarrow> Inl e
           | Inr acc' \<Rightarrow> glove_loop_coreml E ws acc' (k + 1)))"

definition text_to_glove_vector_coreml ::
  "string \<Rightarrow> embeddings \<Rightarrow> nat \<Rightarrow> py_error + vector" where
  "text_to_glove_vector_coreml text E max_length =
     (case glove_loop_coreml E (take max_length (py_split text)) (np_zeros 100) 0 of
        Inl e \<Rightarrow> Inl e
      | Inr (acc, word_count) \<Rightarrow>
          if word_count > 0 then np_itruediv acc word_count else Inr acc)"









section \<open>Lexical and punctuation statistics\<close>

definition positive_words :: "string list" where
  "positive_words = [''good'', ''great'', ''excellent'', ''amazing'', ''wonderful'',
     ''fantastic'', ''love'', ''happy'', ''joy'', ''smile'', ''beautiful'', ''perfect'',
     ''awesome'', ''brilliant'']"

definition negative_words :: "string list" where
  "negative_words = [''bad'', ''terrible'', ''awful'', ''horrible'', ''hate'', ''sad'',
     ''angry'', ''frustrated'', ''disappointed'', ''worst'', ''hate'', ''disgusting'',
     ''annoying'']"

text \<open>\<open>extract_smart_features\<close> of convert_to_coreml.py: the nine statistics of one
  text.\<close>

definition extract_smart_features_coreml :: "string \<Rightarrow> vector" where
  "extract_smart_features_coreml text =
     (let text_length = length text;
          word_count = length (py_split text);
          exclamation_count = count_char CHR ''!'' text;
          question_count = count_char CHR ''?'' text;
          words = py_split text;
          positive_count = length (filter (\<lambda>word. py_lower word \<in> set positive_words) words);
          negative_count = length (filter (\<lambda>word. py_lower word \<in> set negative_words) words);
          multiple_exclamation = count_double CHR ''!'' text;
          multiple_question = count_double CHR ''?'' text;
          avg_word_length = (if words \<noteq> [] then np_mean (map (\<lambda>word. real (length word)) words)
                             else 0)
      in [real text_length, real word_count, real exclamation_count, real question_count,
          real positive_count, real negative_count, real multiple_exclamation,
          real multiple_question, avg_word_length])"

text \<open>\<open>Fast85AccuracyModel.extract_smart_features\<close>: one such row for every text of the
  list.\<close>

definition extract_smart_features_fast85 :: "string list \<Rightarrow> matrix" where
  "extract_smart_features_fast85 texts =
     map (\<lambda>text.
       (let text_length = length text;
            word_count = length (py_split text);
            exclamation_count = count_char CHR ''!'' text;
            question_count = count_char CHR ''?'' text;
            words = py_split text;
            positive_count = length (filter (\<lambda>word. py_lower word \<in> set positive_words) words);
            negative_count = length (filter (\<lambda>word. py_lower word \<in> set negative_words) words);
            multiple_exclamation = count_double CHR ''!'' text;
            multiple_question = count_double CHR ''?'' text;
            avg_word_length = (if words \<noteq> [] then np_mean (map (\<lambda>word. real (length word)) words)
                               else 0)
        in [real text_length, real word_count, real exclamation_count, real question_count,
            real positive_count, real negative_count, real multiple_exclamation,
            real multiple_question, avg_word_length])) texts"

section \<open>The feature pipelines\<close>

text \<open>
  The TF-IDF vectorizer of scikit-learn is a parameter of the model: \<open>tfidf_fit\<close> learns
  a vocabulary from a corpus or raises, and \<open>tfidf_row\<close> gives the row of one document
  under a fitted vocabulary (\<open>transform\<close> works document by document).  A vectorizer
  object is unfitted until \<open>fit_transform\<close> has succeeded.
\<close>

datatype 'v tfidf = Unfitted | Fitted 'v

record 'v tfidf_lib =
  tfidf_fit :: "string list \<Rightarrow> py_error + 'v"
  tfidf_row :: "'v \<Rightarrow> string \<Rightarrow> vector"

text \<open>The fields of \<open>Fast85AccuracyModel\<close> and of \<open>AdvancedEnsembleModel\<close>.\<close>

record ('m, 's, 'v) ensemble_state =
  glove_embeddings :: embeddings
  ensemble_model :: "'m option"
  scaler :: 's
  tfidf_vectorizer :: "'v tfidf option"
  best_accuracy :: real

text \<open>
  \<open>Fast85AccuracyModel.prepare_smart_features\<close>.  The result is the feature matrix or
  the exception, together with the object's state afterwards: when no vectorizer is
  set, a new one is stored before it is fitted.
\<close>

definition prepare_smart_features ::
  "'v tfidf_lib \<Rightarrow> ('m, 's, 'v) ensemble_state \<Rightarrow> string list
   \<Rightarrow> (py_error + matrix) \<times> ('m, 's, 'v) ensemble_state" where
  "prepare_smart_features lib st texts =
     (case collect (map (\<lambda>text. text_to_glove_vector_fast85 (glove_embeddings st) text 40) texts) of
        Inl e \<Rightarrow> (Inl e, st)
      | Inr glove_features \<Rightarrow>
          (case tfidf_vectorizer st of
             None \<Rightarrow>
               (case tfidf_fit lib texts of
                  Inl e \<Rightarrow> (Inl e, st\<lparr>tfidf_vectorizer := Some Unfitted\<rparr>)
                | Inr v \<Rightarrow>
                    (np_hstack3 glove_features (map (tfidf_row lib v) texts)
                       (extract_smart_features_fast85 texts),
                     st\<lparr>tfidf_vectorizer := Some (Fitted v)\<rparr>))
           | Some Unfitted \<Rightarrow> (Inl NotFittedError, st)
           | Some (Fitted v) \<Rightarrow>
               (np_hstack3 glove_features (map (tfidf_row lib v) texts)
                  (extract_smart_features_fast85 texts),
                st)))"

text \<open>
  \<open>SentimentPredictor.predict_sentiment\<close> of convert_to_coreml.py up to
  \<open>combined_features\<close>: the predictor holds the vectorizer and the embedding table
  loaded from the saved artifacts.
\<close>

definition predict_sentiment_features ::
  "'v tfidf_lib \<Rightarrow> 'v tfidf option \<Rightarrow> embeddings \<Rightarrow> cell \<Rightarrow> py_error + vector" where
  "predict_sentiment_features lib vectorizer E text =
     (let processed_text = preprocess_text_coreml text
      in case text_to_glove_vector_coreml processed_text E 40 of
           Inl e \<Rightarrow> Inl e
         | Inr glove_vector \<Rightarrow>
             (case vectorizer of
                None \<Rightarrow> Inl AttributeError
              | Some Unfitted \<Rightarrow> Inl NotFittedError
              | Some (Fitted v) \<Rightarrow>
                  Inr (glove_vector @ tfidf_row lib v processed_text
                       @ extract_smart_features_coreml processed_text)))"

section \<open>Loading the data set\<close>

text \<open>
  A row of the CSV file as \<open>pd.read_csv\<close> delivers it: the columns \<open>Text\<close> and
  \<open>Emotion\<close>.  Reading the file may raise; its outcome is an argument of the loaders.
\<close>

record csv_row =
  Text :: cell
  Emotion :: cell

definition emotion_to_sentiment :: "string \<rightharpoonup> string" where
  "emotion_to_sentiment = map_of
     [(''happy'', ''positive''), (''love'', ''positive''), (''surprise'', ''neutral''),
      (''anger'', ''negative''), (''sadness'', ''negative''), (''fear'', ''negative'')]"

text \<open>\<open>df['Emotion'].map(emotion_to_sentiment)\<close>: \<open>None\<close> stands for the \<open>NaN\<close> that
  a missing or unmapped emotion gives.\<close>

definition sentiment_of :: "csv_row \<Rightarrow> string option" where
  "sentiment_of r = (case Emotion r of NaN \<Rightarrow> None | Str e \<Rightarrow> emotion_to_sentiment e)"

text \<open>\<open>df.dropna(subset=['Text', 'sentiment'])\<close>, keeping the text cell and the label.\<close>

fun dropna_rows :: "csv_row list \<Rightarrow> (csv_row \<times> string) list" where
  "dropna_rows [] = []"
| "dropna_rows (r # rs) =
     (case sentiment_of r of
        None \<Rightarrow> dropna_rows rs
      | Some l \<Rightarrow> (if Text r = NaN then dropna_rows rs else (r, l) # dropna_rows rs))"

text \<open>\<open>Fast85AccuracyModel.load_emotion_dataset\<close>.  \<open>sample n\<close> stands for
  \<open>df.sample(n=n, random_state=42)\<close>.\<close>

definition load_emotion_dataset_fast85 ::
  "(nat \<Rightarrow> (string \<times> string) list \<Rightarrow> (string \<times> string) list)
   \<Rightarrow> py_error + csv_row list \<Rightarrow> py_error + (string list \<times> string list)" where
  "load_emotion_dataset_fast85 sample csv =
     (case csv of
        Inl e \<Rightarrow> Inl e
      | Inr df \<Rightarrow>
          (let df1 = dropna_rows df;
               df2 = map (\<lambda>(r, l). (smart_preprocess_text (Text r), l)) df1;
               df3 = filter (\<lambda>(t, l). length t > 10) df2;
               df4 = (if length df3 > 6000 then sample 6000 df3 else df3)
           in Inr (map fst df4, map snd df4)))"

text \<open>\<open>AdvancedEnsembleModel.load_emotion_dataset\<close>.\<close>

definition load_emotion_dataset_advanced ::
  "(nat \<Rightarrow> (string \<times> string) list \<Rightarrow> (string \<times> string) list)
   \<Rightarrow> py_error + csv_row list \<Rightarrow> py_error + (string list \<times> string list)" where
  "load_emotion_dataset_advanced sample csv =
     (case csv of
        Inl e \<Rightarrow> Inl e
      | Inr df \<Rightarrow>
          (let df1 = dropna_rows df;
               df2 = map (\<lambda>(r, l). (advanced_preprocess_text (Text r), l)) df1;
               df3 = filter (\<lambda>(t, l). length t > 10) df2;
               df4 = (if length df3 > 12000 then sample 12000 df3 else df3)
           in Inr (map fst df4, map snd df4)))"

text \<open>\<open>EmotionModelTrainer.load_emotion_dataset\<close> returns the frame with the new
  column \<open>sentiment\<close>; the texts are cleaned and filtered by
  \<open>prepare_training_data\<close>.\<close>

definition load_emotion_dataset_trainer ::
  "py_error + csv_row list \<Rightarrow> py_error + (csv_row \<times> string) list" where
  "load_emotion_dataset_trainer csv =
     (case csv of Inl e \<Rightarrow> Inl e | Inr df \<Rightarrow> Inr (dropna_rows df))"

definition prepare_training_data ::
  "(nat \<Rightarrow> (csv_row \<times> string) list \<Rightarrow> (csv_row \<times> string) list)
   \<Rightarrow> (csv_row \<times> string) list \<Rightarrow> nat \<Rightarrow> string list \<times> string list" where
  "prepare_training_data sample df max_samples =
     (let df1 = (if length df > max_samples then sample max_samples df else df);
          df2 = map (\<lambda>(r, l). (preprocess_text_trainer (Text r), l)) df1;
          df3 = filter (\<lambda>(t, l). length t > 10) df2
      in (map fst df3, map snd df3))"

definition sentiments :: "string set" where
  "sentiments = {''positive'', ''negative'', ''neutral''}"

definition mapped_emotions :: "string set" where
  "mapped_emotions = {''happy'', ''love'', ''surprise'', ''anger'', ''sadness'', ''fear''}"

text \<open>A sampler returns rows of the frame it is given.\<close>

definition sampler :: "(nat \<Rightarrow> 'a list \<Rightarrow> 'a list) \<Rightarrow> bool" where
  "sampler sample = (\<forall>n xs. set (sample n xs) \<subseteq> set xs)"

section \<open>Sample data\<close>

text \<open>A one-word embedding table, a vectorizer whose only feature is the length of
  the document, and a model object holding both.\<close>

definition hello_table :: embeddings where
  "hello_table = [''hello'' \<mapsto> replicate 100 1]"

definition toy_tfidf :: "unit tfidf_lib" where
  "toy_tfidf = \<lparr>tfidf_fit = (\<lambda>texts. Inr ()), tfidf_row = (\<lambda>v text. [real (length text)])\<rparr>"

definition toy_state :: "(unit, unit, unit) ensemble_state" where
  "toy_state = \<lparr>glove_embeddings = hello_table, ensemble_model = None, scaler = (),
     tfidf_vectorizer = Some (Fitted ()), best_accuracy = 0\<rparr>"


section \<open>Saving the artifacts\<close>







section \<open>Conversion for the device\<close>




text \<open>The fields of \<open>EmotionModelTrainer\<close> that the conversion reads; \<open>word_index\<close> is
  \<open>self.tokenizer.word_index\<close>.\<close>

record 'k trainer_state =
  model :: "'k option"
  vocab_size :: nat
  max_length :: nat
  word_index :: "(string \<times> nat) list"









definition sample_frame :: "csv_row list" where
  "sample_frame =
     [\<lparr>Text = Str ''I am SO happy today!!'', Emotion = Str ''happy''\<rparr>,
      \<lparr>Text = Str ''hi'', Emotion = Str ''happy''\<rparr>,
      \<lparr>Text = Str ''what is this thing here'', Emotion = Str ''bored''\<rparr>,
      \<lparr>Text = NaN, Emotion = Str ''fear''\<rparr>]"

section \<open>Properties of the string operations\<close>

lemma space_isspace: "py_isspace CHR '' ''"
  by (simp add: py_isspace_def)

lemma lower_not_upper: "\<not> ascii_upper (py_lower_char c)"
  by (auto simp: ascii_upper_def py_lower_char_def Let_def)

lemma set_collapse_ws:
  "x \<in> set (collapse_ws s) \<Longrightarrow> x = CHR '' '' \<or> (x \<in> set s \<and> \<not> py_isspace x)"
  by (induction s rule: collapse_ws.induct) (auto split: if_splits dest: set_dropWhileD)

lemma collapse_ws_head:
  "s = [] \<or> \<not> py_isspace (hd s) \<Longrightarrow>
   collapse_ws s = [] \<or> \<not> py_isspace (hd (collapse_ws s))"
  by (cases s) auto

lemma dropWhile_head: "dropWhile P s = [] \<or> \<not> P (hd (dropWhile P s))"
  using hd_dropWhile by blast

lemma no_adj_ws_Cons:
  "no_adj_ws (x # r) = ((r = [] \<or> \<not> (py_isspace x \<and> py_isspace (hd r))) \<and> no_adj_ws r)"
  by (cases r) auto

lemma no_adj_collapse: "no_adj_ws (collapse_ws s)"
proof (induction s rule: collapse_ws.induct)
  case 1
  show ?case by simp
next
  case (2 c cs)
  show ?case
  proof (cases "py_isspace c")
    case True
    have "collapse_ws (dropWhile py_isspace cs) = []
          \<or> \<not> py_isspace (hd (collapse_ws (dropWhile py_isspace cs)))"
      by (rule collapse_ws_head) (rule dropWhile_head)
    with True 2 show ?thesis by (simp add: no_adj_ws_Cons)
  next
    case False
    with 2 show ?thesis by (simp add: no_adj_ws_Cons)
  qed
qed

lemma no_adj_append: "no_adj_ws (xs @ ys) \<Longrightarrow> no_adj_ws xs \<and> no_adj_ws ys"
  by (induction xs rule: no_adj_ws.induct) (auto simp: no_adj_ws_Cons)

lemma strip_is_prefix:
  "dropWhile py_isspace s =
     py_strip s @ rev (takeWhile py_isspace (rev (dropWhile py_isspace s)))"
  unfolding py_strip_def by (metis rev_append rev_rev_ident takeWhile_dropWhile_id)

lemma no_adj_strip:
  assumes "no_adj_ws s"
  shows "no_adj_ws (py_strip s)"
proof -
  let ?t = "dropWhile py_isspace s"
  have "s = takeWhile py_isspace s @ ?t" by simp
  with assms have t: "no_adj_ws ?t" using no_adj_append by metis
  with strip_is_prefix[of s] show ?thesis using no_adj_append by metis
qed

lemma strip_ends:
  "py_strip s = [] \<or> (\<not> py_isspace (hd (py_strip s)) \<and> \<not> py_isspace (last (py_strip s)))"
proof (cases "py_strip s = []")
  case True
  then show ?thesis by simp
next
  case False
  let ?t = "dropWhile py_isspace s"
  let ?u = "dropWhile py_isspace (rev ?t)"
  have u: "?u \<noteq> []" using False by (simp add: py_strip_def)
  then have l: "\<not> py_isspace (hd ?u)" using hd_dropWhile by blast
  have last: "last (py_strip s) = hd ?u" using u by (simp add: py_strip_def last_rev)
  have t: "?t \<noteq> []"
  proof
    assume a: "?t = []"
    have "?u = []" unfolding a by simp
    with u show False by simp
  qed
  then have ht: "\<not> py_isspace (hd ?t)" using hd_dropWhile by blast
  from strip_is_prefix[of s] have "hd ?t = hd (py_strip s)" using False by (metis hd_append2)
  with ht l last show ?thesis by simp
qed

lemma set_strip: "set (py_strip s) \<subseteq> set s"
  unfolding py_strip_def by (auto dest!: set_dropWhileD)

lemma no_adj_imp_no_double: "no_adj_ws s \<Longrightarrow> no_double_space s"
  by (induction s rule: no_adj_ws.induct) (auto simp: space_isspace)

section \<open>The preprocessing of the fast model and of the converter\<close>

lemma keep_alpha_lower:
  "keep_alpha (py_lower_char c) \<Longrightarrow>
   ascii_lower (py_lower_char c) \<or> py_isspace (py_lower_char c)
   \<or> sentiment_punct (py_lower_char c)"
  using lower_not_upper by (auto simp: keep_alpha_def)

lemma clean_pipeline:
  assumes "x \<in> set (py_strip (collapse_ws (filter keep_alpha (py_lower s))))"
  shows "clean_char x"
proof -
  from assms have "x \<in> set (collapse_ws (filter keep_alpha (py_lower s)))"
    using set_strip by blast
  then have "x = CHR '' '' \<or> (x \<in> set (filter keep_alpha (py_lower s)) \<and> \<not> py_isspace x)"
    by (rule set_collapse_ws)
  then show ?thesis
  proof
    assume "x = CHR '' ''"
    then show ?thesis by (simp add: clean_char_def)
  next
    assume a: "x \<in> set (filter keep_alpha (py_lower s)) \<and> \<not> py_isspace x"
    then obtain c where "x = py_lower_char c" "keep_alpha x" by (auto simp: py_lower_def)
    with a keep_alpha_lower show ?thesis by (auto simp: clean_char_def)
  qed
qed

lemma smart_pipeline_shape:
  "(\<forall>c \<in> set (py_strip (collapse_ws (filter keep_alpha (py_lower s)))). clean_char c)
   \<and> trimmed (py_strip (collapse_ws (filter keep_alpha (py_lower s))))
   \<and> no_adj_ws (py_strip (collapse_ws (filter keep_alpha (py_lower s))))"
proof -
  let ?r = "py_strip (collapse_ws (filter keep_alpha (py_lower s)))"
  have "\<forall>c \<in> set ?r. clean_char c" using clean_pipeline by blast
  moreover have "trimmed ?r" unfolding trimmed_def by (rule strip_ends)
  moreover have "no_adj_ws ?r" by (intro no_adj_strip no_adj_collapse)
  ultimately show ?thesis by simp
qed

text \<open>
  Claim C10.  Whatever the input cell, the string returned by \<open>smart_preprocess_text\<close>
  and by \<open>preprocess_text\<close> of the converter consists of lowercase letters \<open>a\<close> to \<open>z\<close>,
  spaces and the characters \<open>. , ! ?\<close> only, has no whitespace at either end and no
  two consecutive spaces; the missing value \<open>NaN\<close> gives the empty string.
\<close>

theorem preprocess_output_shape:
  "smart_preprocess_text NaN = [] \<and> preprocess_text_coreml NaN = []
   \<and> (\<forall>c \<in> set (smart_preprocess_text x). clean_char c)
   \<and> trimmed (smart_preprocess_text x) \<and> no_double_space (smart_preprocess_text x)
   \<and> (\<forall>c \<in> set (preprocess_text_coreml x). clean_char c)
   \<and> trimmed (preprocess_text_coreml x) \<and> no_double_space (preprocess_text_coreml x)"
proof (cases x)
  case NaN
  then show ?thesis by (simp add: trimmed_def)
next
  case (Str s)
  with smart_pipeline_shape[of s] show ?thesis by (simp add: no_adj_imp_no_double)
qed

theorem preprocess_output_shape_witness:
  "smart_preprocess_text (Str ''  Hello,   World!! 123 @you  '') = ''hello, world!! you''
   \<and> preprocess_text_coreml (Str ''  Hello,   World!! 123 @you  '') = ''hello, world!! you''
   \<and> list_all clean_char ''hello, world!! you''
   \<and> trimmed ''hello, world!! you'' \<and> no_double_space ''hello, world!! you''"
proof -
  have a: "smart_preprocess_text (Str ''  Hello,   World!! 123 @you  '') = ''hello, world!! you''"
    by code_simp
  have b: "preprocess_text_coreml (Str ''  Hello,   World!! 123 @you  '') = ''hello, world!! you''"
    by code_simp
  from preprocess_output_shape[of "Str ''  Hello,   World!! 123 @you  ''"]
  show ?thesis unfolding a b by (simp add: list_all_iff)
qed

section \<open>What the three preprocessing functions strip\<close>


lemma set_remove_urls: "set (remove_urls s) \<subseteq> set s"
  by (induction s rule: remove_urls.induct) (auto dest: set_dropWhileD)

lemma set_remove_mentions: "set (remove_mentions s) \<subseteq> set s"
  by (induction s rule: remove_mentions.induct) (auto dest: set_dropWhileD)

lemma no_marker_no_mention:
  "\<forall>c \<in> set s. c \<noteq> CHR ''@'' \<and> c \<noteq> CHR ''#'' \<Longrightarrow> \<not> has_mention s"
  by (induction s) (auto simp: mention_at_def split: list.splits)

lemma clean_not_marker: "clean_or_digit c \<Longrightarrow> c \<noteq> CHR ''@'' \<and> c \<noteq> CHR ''#''"
  by (auto simp: clean_or_digit_def clean_char_def ascii_lower_def ascii_digit_def sentiment_punct_def)

lemma lowered_kept:
  assumes "x \<in> set (py_lower s)" "keep_alnum x" "\<not> py_isspace x"
  shows "clean_or_digit x"
proof -
  from assms(1) obtain c where "x = py_lower_char c" by (auto simp: py_lower_def)
  then have "\<not> ascii_upper x" using lower_not_upper by simp
  with assms(2,3) show ?thesis by (auto simp: keep_alnum_def clean_or_digit_def clean_char_def)
qed

lemma keep_alpha_alnum: "keep_alpha c \<Longrightarrow> keep_alnum c"
  by (auto simp: keep_alpha_def keep_alnum_def)

lemma lowered_kept_alpha:
  assumes "x \<in> set (py_lower s)" "keep_alpha x" "\<not> py_isspace x"
  shows "clean_char x"
proof -
  from assms(1) obtain c where "x = py_lower_char c" by (auto simp: py_lower_def)
  then have "\<not> ascii_upper x" using lower_not_upper by simp
  with assms(2,3) show ?thesis by (auto simp: keep_alpha_def clean_char_def)
qed

lemma trainer_chars:
  assumes "x \<in> set (py_strip (filter keep_alnum (collapse_ws (remove_mentions (remove_urls (py_lower s))))))"
  shows "clean_or_digit x"
proof -
  let ?R = "remove_mentions (remove_urls (py_lower s))"
  from assms have "x \<in> set (filter keep_alnum (collapse_ws ?R))"
    using set_strip by blast
  then have k: "keep_alnum x" and m: "x \<in> set (collapse_ws ?R)" by auto
  from m have "x = CHR '' '' \<or> (x \<in> set ?R \<and> \<not> py_isspace x)" using set_collapse_ws by blast
  then show ?thesis
  proof
    assume "x = CHR '' ''" then show ?thesis by (simp add: clean_or_digit_def clean_char_def)
  next
    assume a: "x \<in> set ?R \<and> \<not> py_isspace x"
    then have "x \<in> set (py_lower s)" using set_remove_mentions set_remove_urls by blast
    with a k show ?thesis using lowered_kept by blast
  qed
qed

lemma advanced_chars:
  assumes "x \<in> set (py_strip (collapse_ws (filter keep_alpha (remove_mentions (remove_urls (py_lower s))))))"
  shows "clean_char x"
proof -
  let ?R = "remove_mentions (remove_urls (py_lower s))"
  from assms have "x \<in> set (collapse_ws (filter keep_alpha ?R))"
    using set_strip by blast
  then have "x = CHR '' '' \<or> (x \<in> set (filter keep_alpha ?R) \<and> \<not> py_isspace x)" using set_collapse_ws by blast
  then show ?thesis
  proof
    assume "x = CHR '' ''" then show ?thesis by (simp add: clean_char_def)
  next
    assume a: "x \<in> set (filter keep_alpha ?R) \<and> \<not> py_isspace x"
    then have "x \<in> set (py_lower s)" using set_remove_mentions set_remove_urls by fastforce
    with a show ?thesis using lowered_kept_alpha by auto
  qed
qed

lemma lit_then_nonspace_iff:
  "lit_then_nonspace lit s = (\<exists>x r. \<not> py_isspace x \<and> s = lit @ x # r)"
proof
  assume "lit_then_nonspace lit s"
  then obtain c r where t: "take (length lit) s = lit" and d: "drop (length lit) s = c # r" and c: "\<not> py_isspace c"
    by (auto simp: lit_then_nonspace_def split: list.splits)
  have "s = take (length lit) s @ drop (length lit) s" by simp
  with t d have "s = lit @ c # r" by simp
  with c show "\<exists>x r. \<not> py_isspace x \<and> s = lit @ x # r" by blast
next
  assume "\<exists>x r. \<not> py_isspace x \<and> s = lit @ x # r"
  then show "lit_then_nonspace lit s" by (auto simp: lit_then_nonspace_def)
qed

lemma url_at_iff: "url_at s = (\<exists>l x r. url_lit l \<and> \<not> py_isspace x \<and> s = l @ x # r)"
  unfolding url_at_def lit_then_nonspace_iff url_lit_def by blast

lemma url_lit_nonspace: "url_lit l \<Longrightarrow> l \<noteq> [] \<and> (\<forall>c \<in> set l. \<not> py_isspace c)"
  by (auto simp: url_lit_def py_isspace_def)

lemma space_not_url: "py_isspace c \<Longrightarrow> \<not> url_at (c # cs)"
proof
  assume sp: "py_isspace c" and "url_at (c # cs)"
  then obtain l x r where l: "url_lit l" and e: "c # cs = l @ x # r" using url_at_iff by blast
  from l have "l \<noteq> []" using url_lit_nonspace by blast
  then obtain a l' where "l = a # l'" by (cases l) auto
  with e l sp show False using url_lit_nonspace by fastforce
qed

lemma remove_urls_word_prefix:
  "\<forall>x \<in> set w. \<not> py_isspace x \<Longrightarrow> remove_urls s = w @ r \<Longrightarrow> \<exists>r'. s = w @ r'"
proof (induction s arbitrary: w r rule: remove_urls.induct)
  case 1
  then show ?case by simp
next
  case (2 c cs)
  show ?case
  proof (cases "url_at (c # cs)")
    case True
    let ?d = "dropWhile (\<lambda>x. \<not> py_isspace x) cs"
    from True "2.prems"(2) have e: "remove_urls ?d = w @ r" by simp
    have "w = []"
    proof (cases ?d)
      case Nil
      with e show ?thesis by simp
    next
      case (Cons a d')
      then have "py_isspace a" using hd_dropWhile[of "\<lambda>x. \<not> py_isspace x" cs] by auto
      with Cons e have "a # remove_urls d' = w @ r" using space_not_url by simp
      with \<open>py_isspace a\<close> "2.prems"(1) show ?thesis by (cases w) auto
    qed
    then show ?thesis by simp
  next
    case False
    with "2.prems"(2) have e: "c # remove_urls cs = w @ r" by simp
    show ?thesis
    proof (cases w)
      case Nil
      then show ?thesis by simp
    next
      case (Cons a w')
      with e have "a = c" "remove_urls cs = w' @ r" by auto
      moreover from Cons "2.prems"(1) have "\<forall>x \<in> set w'. \<not> py_isspace x" by simp
      ultimately obtain r' where "cs = w' @ r'" using "2.IH"(2)[OF False] by blast
      with Cons \<open>a = c\<close> show ?thesis by simp
    qed
  qed
qed

lemma url_at_after_removal: "url_at (c # remove_urls cs) \<Longrightarrow> url_at (c # cs)"
proof -
  assume "url_at (c # remove_urls cs)"
  then obtain l x r where l: "url_lit l" and x: "\<not> py_isspace x" and e: "c # remove_urls cs = l @ x # r"
    using url_at_iff by blast
  from l obtain l' where l': "l = c # l'" using e url_lit_nonspace by (cases l) auto
  with e have "remove_urls cs = (l' @ [x]) @ r" by simp
  moreover have "\<forall>y \<in> set (l' @ [x]). \<not> py_isspace y" using l l' x url_lit_nonspace by auto
  ultimately obtain r' where "cs = (l' @ [x]) @ r'" using remove_urls_word_prefix by blast
  then have "c # cs = l @ x # r'" using l' by simp
  with l x show ?thesis using url_at_iff by blast
qed

lemma remove_urls_no_url: "\<not> has_url (remove_urls s)"
proof (induction s rule: remove_urls.induct)
  case 1
  show ?case by simp
next
  case (2 c cs)
  then show ?case using url_at_after_removal by (cases "url_at (c # cs)") auto
qed

text \<open>
  Claim C2, as the code has it.  Each of the three preprocessing functions lowercases
  and strips the special characters: the returned string has no uppercase letter and
  no character outside \<open>a\<close> to \<open>z\<close>, space and \<open>. , ! ?\<close> (the trainer's function also
  keeps digits), hence neither \<open>@\<close> nor \<open>#\<close> and no mention or hashtag.  The trainer's
  and the advanced model's function delete every match of the URL pattern from the
  lowercased text, which then holds no match; \<open>smart_preprocess_text\<close> has no URL step.
\<close>

theorem preprocess_strips_markers:
  "(\<forall>c \<in> set (smart_preprocess_text x). clean_char c)
   \<and> (\<forall>c \<in> set (advanced_preprocess_text x). clean_char c)
   \<and> (\<forall>c \<in> set (preprocess_text_trainer x). clean_or_digit c)
   \<and> \<not> has_mention (smart_preprocess_text x)
   \<and> \<not> has_mention (advanced_preprocess_text x)
   \<and> \<not> has_mention (preprocess_text_trainer x)
   \<and> preprocess_text_trainer (Str s) =
       py_strip (filter keep_alnum (collapse_ws (remove_mentions (remove_urls (py_lower s)))))
   \<and> advanced_preprocess_text (Str s) =
       py_strip (collapse_ws (filter keep_alpha (remove_mentions (remove_urls (py_lower s)))))
   \<and> \<not> has_url (remove_urls (py_lower s))"
proof -
  have a: "\<forall>c \<in> set (smart_preprocess_text x). clean_char c"
    using clean_pipeline by (cases x) auto
  have b: "\<forall>c \<in> set (advanced_preprocess_text x). clean_char c"
    using advanced_chars by (cases x) auto
  have c: "\<forall>c \<in> set (preprocess_text_trainer x). clean_or_digit c"
    using trainer_chars by (cases x) auto
  have m: "\<And>r. \<forall>c \<in> set r. clean_or_digit c \<Longrightarrow> \<not> has_mention r"
    using clean_not_marker no_marker_no_mention by blast
  have a': "\<forall>c \<in> set (smart_preprocess_text x). clean_or_digit c"
    using a by (simp add: clean_or_digit_def)
  have b': "\<forall>c \<in> set (advanced_preprocess_text x). clean_or_digit c"
    using b by (simp add: clean_or_digit_def)
  show ?thesis
    using a b c m[OF a'] m[OF b'] m[OF c] remove_urls_no_url[of "py_lower s"] by simp
qed

theorem preprocess_strips_markers_witness:
  "smart_preprocess_text (Str ''Hi @Bob, see http://t.co/x1 #NOW!'') = ''hi bob, see httpt.cox now!''
   \<and> preprocess_text_trainer (Str ''Hi @Bob, see http://t.co/x1 #NOW!'') = ''hi , see !''
   \<and> advanced_preprocess_text (Str ''Hi @Bob, see http://t.co/x1 #NOW!'') = ''hi , see !''
   \<and> list_all clean_char ''hi bob, see httpt.cox now!''
   \<and> list_all clean_or_digit ''hi , see !''
   \<and> \<not> has_mention ''hi bob, see httpt.cox now!'' \<and> \<not> has_mention ''hi , see !''
   \<and> remove_urls (py_lower ''Hi @Bob, see http://t.co/x1 #NOW!'') = ''hi @bob, see  #now!''
   \<and> \<not> has_url ''hi @bob, see  #now!''"
proof -
  have a: "smart_preprocess_text (Str ''Hi @Bob, see http://t.co/x1 #NOW!'')
             = ''hi bob, see httpt.cox now!''"
    by code_simp
  have b: "preprocess_text_trainer (Str ''Hi @Bob, see http://t.co/x1 #NOW!'') = ''hi , see !''"
    by code_simp
  have c: "advanced_preprocess_text (Str ''Hi @Bob, see http://t.co/x1 #NOW!'') = ''hi , see !''"
    by code_simp
  have d: "remove_urls (py_lower ''Hi @Bob, see http://t.co/x1 #NOW!'') = ''hi @bob, see  #now!''"
    by code_simp
  note t = preprocess_strips_markers[of "Str ''Hi @Bob, see http://t.co/x1 #NOW!''"
      "''Hi @Bob, see http://t.co/x1 #NOW!''", unfolded a b c d]
  from t show ?thesis unfolding a b c d list_all_iff by blast
qed

text \<open>A URL passes through \<open>smart_preprocess_text\<close> unchanged.\<close>

theorem smart_preprocess_keeps_url:
  "has_url (smart_preprocess_text (Str ''see www.example.com''))"
  by code_simp

section \<open>Idempotence of the preprocessing\<close>

lemma lower_clean: "clean_char c \<Longrightarrow> py_lower_char c = c"
  by (auto simp: clean_char_def ascii_lower_def py_lower_char_def sentiment_punct_def Let_def)

lemma keep_clean: "clean_char c \<Longrightarrow> keep_alpha c"
  by (auto simp: clean_char_def keep_alpha_def space_isspace)

lemma clean_space: "clean_char c \<Longrightarrow> py_isspace c \<Longrightarrow> c = CHR '' ''"
  by (auto simp: clean_char_def ascii_lower_def py_isspace_def sentiment_punct_def Let_def)

lemma collapse_fix:
  "no_adj_ws s \<Longrightarrow> \<forall>c\<in>set s. py_isspace c \<longrightarrow> c = CHR '' '' \<Longrightarrow> collapse_ws s = s"
proof (induction s rule: collapse_ws.induct)
  case 1
  show ?case by simp
next
  case (2 c cs)
  from "2.prems"(1) have na: "no_adj_ws cs" by (simp add: no_adj_ws_Cons)
  from "2.prems"(2) have sp: "\<forall>c\<in>set cs. py_isspace c \<longrightarrow> c = CHR '' ''" by simp
  show ?case
  proof (cases "py_isspace c")
    case True
    with "2.prems"(2) have c: "c = CHR '' ''" by simp
    from "2.prems"(1) True have "cs = [] \<or> \<not> py_isspace (hd cs)"
      by (simp add: no_adj_ws_Cons)
    then have d: "dropWhile py_isspace cs = cs" by (cases cs) auto
    from "2.IH"(1)[OF True] d na sp have "collapse_ws cs = cs" by simp
    with True c d show ?thesis by simp
  next
    case False
    from "2.IH"(2)[OF False na sp] False show ?thesis by simp
  qed
qed

lemma strip_fix: "trimmed s \<Longrightarrow> py_strip s = s"
proof (cases "s = []")
  case True
  then show ?thesis by (simp add: py_strip_def)
next
  case False
  assume "trimmed s"
  with False have h: "\<not> py_isspace (hd s)" and l: "\<not> py_isspace (last s)"
    by (auto simp: trimmed_def)
  from h False have 1: "dropWhile py_isspace s = s" by (cases s) auto
  from l False have 2: "dropWhile py_isspace (rev s) = rev s"
    by (cases "rev s") (auto simp: last_rev hd_rev)
  show ?thesis by (simp add: py_strip_def 1 2)
qed

lemma smart_fix:
  assumes "\<forall>c \<in> set r. clean_char c" "trimmed r" "no_adj_ws r"
  shows "smart_preprocess_text (Str r) = r"
proof -
  have 1: "py_lower r = r" using assms(1) by (simp add: py_lower_def lower_clean map_idI)
  have 2: "filter keep_alpha r = r" using assms(1) by (simp add: keep_clean)
  have 3: "collapse_ws r = r" using assms(1,3) clean_space by (intro collapse_fix) auto
  show ?thesis by (simp add: 1 2 3 strip_fix assms(2))
qed

text \<open>\<open>smart_preprocess_text\<close> is idempotent: a cleaned text is a fixed point.\<close>

lemma smart_preprocess_text_idempotent:
  "smart_preprocess_text (Str (smart_preprocess_text x)) = smart_preprocess_text x"
proof (cases x)
  case NaN
  then show ?thesis by (simp add: py_lower_def py_strip_def)
next
  case (Str s)
  from smart_pipeline_shape[of s] have
    "smart_preprocess_text (Str (py_strip (collapse_ws (filter keep_alpha (py_lower s)))))
       = py_strip (collapse_ws (filter keep_alpha (py_lower s)))"
    by (intro smart_fix) auto
  with Str show ?thesis by simp
qed

text \<open>
  Claim C4.  The trainer's \<open>preprocess_text\<close> collapses the whitespace before it deletes
  the special characters, so a deleted character between two spaces leaves a double
  space, which a second application collapses: the function is not idempotent at
  \<open>a - b\<close>.
\<close>

theorem trainer_preprocess_not_idempotent:
  "preprocess_text_trainer (Str ''a - b'') = ''a  b''
   \<and> preprocess_text_trainer (Str (preprocess_text_trainer (Str ''a - b''))) = ''a b''"
  by code_simp

section \<open>GloVe averaging\<close>

lemma loop_coreml_eq: "glove_loop_coreml E ws acc k = glove_loop_fast85 E ws acc k"
  by (induction ws arbitrary: acc k) (auto split: option.splits sum.splits)


lemma glove_coreml_eq:
  "text_to_glove_vector_coreml text E m = text_to_glove_vector_fast85 E text m"
  by (simp add: text_to_glove_vector_coreml_def text_to_glove_vector_fast85_def
      loop_coreml_eq embedding_dim_def)













section \<open>The feature pipelines\<close>

lemma smart_eq_coreml: "smart_preprocess_text x = preprocess_text_coreml x"
  by (cases x) auto

lemma features_single: "extract_smart_features_fast85 [t] = [extract_smart_features_coreml t]"
  by (simp add: extract_smart_features_fast85_def extract_smart_features_coreml_def)


lemma toy_fitted: "tfidf_vectorizer toy_state = Some (Fitted ())"
  by (simp add: toy_state_def)

text \<open>
  Claim C1.  With a fitted vectorizer, the training-side pipeline applied to the
  preprocessed text gives the one-row matrix whose row is the combined feature vector
  of the inference side for the same text, vectorizer and embedding table; when the
  GloVe step raises, both raise the same exception.
\<close>

theorem training_inference_same_features:
  assumes "tfidf_vectorizer st = Some (Fitted v)"
  shows "fst (prepare_smart_features lib st [smart_preprocess_text x])
     = map_sum id (\<lambda>row. [row])
         (predict_sentiment_features lib (Some (Fitted v)) (glove_embeddings st) x)"
  using assms
  by (cases "text_to_glove_vector_fast85 (glove_embeddings st) (preprocess_text_coreml x) 40")
     (simp_all add: prepare_smart_features_def predict_sentiment_features_def smart_eq_coreml
        glove_coreml_eq features_single np_hstack3_def Let_def)

theorem training_inference_same_features_witness:
  "tfidf_vectorizer toy_state = Some (Fitted ())
   \<and> fst (prepare_smart_features toy_tfidf toy_state [smart_preprocess_text (Str ''Hello, World!'')])
     = map_sum id (\<lambda>row. [row])
         (predict_sentiment_features toy_tfidf (Some (Fitted ())) (glove_embeddings toy_state)
            (Str ''Hello, World!''))"
  using training_inference_same_features[OF toy_fitted, of toy_tfidf "Str ''Hello, World!''"]
    toy_fitted by simp

text \<open>
  Claim C5.  With a fitted vectorizer the feature pipeline leaves the state of the
  model object as it was, so that an evaluation yields the same result whether or not
  another evaluation, on the same or on other texts, came before it; the inference-side
  functions are functions of their arguments alone.
\<close>

theorem feature_pipeline_stateless:
  assumes "tfidf_vectorizer st = Some (Fitted v)"
  shows "snd (prepare_smart_features lib st texts) = st
     \<and> fst (prepare_smart_features lib (snd (prepare_smart_features lib st other)) texts)
         = fst (prepare_smart_features lib st texts)"
proof -
  have "\<And>ts. snd (prepare_smart_features lib st ts) = st"
    using assms by (simp add: prepare_smart_features_def split: sum.splits)
  then show ?thesis by simp
qed

theorem feature_pipeline_stateless_witness:
  "tfidf_vectorizer toy_state = Some (Fitted ())
   \<and> snd (prepare_smart_features toy_tfidf toy_state [''hello world'']) = toy_state
   \<and> fst (prepare_smart_features toy_tfidf
            (snd (prepare_smart_features toy_tfidf toy_state [''so good!!''])) [''hello world''])
       = fst (prepare_smart_features toy_tfidf toy_state [''hello world''])"
  using feature_pipeline_stateless[OF toy_fitted, of toy_tfidf "[''hello world'']" "[''so good!!'']"]
    toy_fitted by simp







section \<open>Loading the data set\<close>

lemma sampled_subset:
  "sampler sample \<Longrightarrow> set (if n < length xs then sample n xs else xs) \<subseteq> set xs"
  by (simp add: sampler_def)

lemma emotion_Some:
  "emotion_to_sentiment e = Some l \<Longrightarrow> l \<in> sentiments \<and> e \<in> mapped_emotions"
  by (auto simp: emotion_to_sentiment_def sentiments_def mapped_emotions_def split: if_splits)

lemma dropna_rows_iff:
  "(r, l) \<in> set (dropna_rows df) \<longleftrightarrow> r \<in> set df \<and> sentiment_of r = Some l \<and> Text r \<noteq> NaN"
  by (induction df) (auto split: option.splits if_splits)

lemma sentiment_of_Some:
  "sentiment_of r = Some l \<Longrightarrow> l \<in> sentiments \<and> (\<exists>e \<in> mapped_emotions. Emotion r = Str e)"
  using emotion_Some by (auto simp: sentiment_of_def split: cell.splits)

lemma zip_fst_snd: "zip (map fst xs) (map snd xs) = xs"
  by (induction xs) auto

lemma fast85_pairs:
  assumes "sampler sample" "load_emotion_dataset_fast85 sample (Inr df) = Inr (texts, labels)"
    "(t, l) \<in> set (zip texts labels)"
  shows "l \<in> sentiments \<and> length t > 10
     \<and> (\<exists>r \<in> set df. t = smart_preprocess_text (Text r)
           \<and> (\<exists>e \<in> mapped_emotions. Emotion r = Str e))"
proof -
  let ?df3 = "filter (\<lambda>(t, l). length t > 10)
      (map (\<lambda>(r, l). (smart_preprocess_text (Text r), l)) (dropna_rows df))"
  let ?df4 = "if length ?df3 > 6000 then sample 6000 ?df3 else ?df3"
  from assms(2) have "texts = map fst ?df4" "labels = map snd ?df4"
    by (auto simp: load_emotion_dataset_fast85_def Let_def)
  with assms(3) have "(t, l) \<in> set ?df4" by (simp only: zip_fst_snd)
  moreover have "set ?df4 \<subseteq> set ?df3"
    by (rule sampled_subset[OF assms(1)])
  ultimately have "(t, l) \<in> set ?df3" by blast
  then obtain r where "(r, l) \<in> set (dropna_rows df)" "t = smart_preprocess_text (Text r)"
    "length t > 10" by auto
  then show ?thesis using dropna_rows_iff sentiment_of_Some by blast
qed

lemma advanced_pairs:
  assumes "sampler sample" "load_emotion_dataset_advanced sample (Inr df) = Inr (texts, labels)"
    "(t, l) \<in> set (zip texts labels)"
  shows "l \<in> sentiments \<and> length t > 10
     \<and> (\<exists>r \<in> set df. t = advanced_preprocess_text (Text r)
           \<and> (\<exists>e \<in> mapped_emotions. Emotion r = Str e))"
proof -
  let ?df3 = "filter (\<lambda>(t, l). length t > 10)
      (map (\<lambda>(r, l). (advanced_preprocess_text (Text r), l)) (dropna_rows df))"
  let ?df4 = "if length ?df3 > 12000 then sample 12000 ?df3 else ?df3"
  from assms(2) have "texts = map fst ?df4" "labels = map snd ?df4"
    by (auto simp: load_emotion_dataset_advanced_def Let_def)
  with assms(3) have "(t, l) \<in> set ?df4" by (simp only: zip_fst_snd)
  moreover have "set ?df4 \<subseteq> set ?df3"
    by (rule sampled_subset[OF assms(1)])
  ultimately have "(t, l) \<in> set ?df3" by blast
  then obtain r where "(r, l) \<in> set (dropna_rows df)" "t = advanced_preprocess_text (Text r)"
    "length t > 10" by auto
  then show ?thesis using dropna_rows_iff sentiment_of_Some by blast
qed

lemma trainer_rows:
  assumes "load_emotion_dataset_trainer (Inr df) = Inr rows" "(r, l) \<in> set rows"
  shows "l \<in> sentiments \<and> r \<in> set df \<and> (\<exists>e \<in> mapped_emotions. Emotion r = Str e)"
  using assms dropna_rows_iff sentiment_of_Some
  by (auto simp: load_emotion_dataset_trainer_def)

lemma trainer_pairs:
  assumes "sampler sample" "load_emotion_dataset_trainer (Inr df) = Inr rows"
    "prepare_training_data sample rows n = (texts, labels)"
    "(t, l) \<in> set (zip texts labels)"
  shows "l \<in> sentiments \<and> length t > 10
     \<and> (\<exists>r \<in> set df. t = preprocess_text_trainer (Text r)
           \<and> (\<exists>e \<in> mapped_emotions. Emotion r = Str e))"
proof -
  let ?df1 = "if length rows > n then sample n rows else rows"
  let ?df3 = "filter (\<lambda>(t, l). length t > 10)
      (map (\<lambda>(r, l). (preprocess_text_trainer (Text r), l)) ?df1)"
  from assms(3) have "texts = map fst ?df3" "labels = map snd ?df3"
    by (auto simp: prepare_training_data_def Let_def)
  with assms(4) have "(t, l) \<in> set ?df3" by (simp only: zip_fst_snd)
  then obtain r where "(r, l) \<in> set ?df1" "t = preprocess_text_trainer (Text r)"
    "length t > 10" by auto
  moreover then have "(r, l) \<in> set rows" using sampled_subset[OF assms(1)] by blast
  ultimately show ?thesis using trainer_rows[OF assms(2)] by blast
qed

text \<open>
  Claim C9, as the code has it.  The loaders of the fast and of the advanced model
  return pairs whose label is one of \<open>positive\<close>, \<open>negative\<close>, \<open>neutral\<close>, whose
  text has more than 10 characters and is the preprocessed text of a row with one of
  the six mapped emotions.  The trainer's loader returns rows with such a label and such
  an emotion, without regard to the length of the text; the length filter is applied by
  \<open>prepare_training_data\<close>, whose pairs satisfy all three conditions.
\<close>

theorem loaded_pairs_labelled_and_long:
  assumes "sampler sample" and "sampler sample'"
  shows "(load_emotion_dataset_fast85 sample (Inr df) = Inr (texts, labels)
          \<longrightarrow> length texts = length labels
            \<and> (\<forall>(t, l) \<in> set (zip texts labels). l \<in> sentiments \<and> length t > 10
                 \<and> (\<exists>r \<in> set df. t = smart_preprocess_text (Text r)
                       \<and> (\<exists>e \<in> mapped_emotions. Emotion r = Str e))))
     \<and> (load_emotion_dataset_advanced sample (Inr df) = Inr (texts, labels)
          \<longrightarrow> length texts = length labels
            \<and> (\<forall>(t, l) \<in> set (zip texts labels). l \<in> sentiments \<and> length t > 10
                 \<and> (\<exists>r \<in> set df. t = advanced_preprocess_text (Text r)
                       \<and> (\<exists>e \<in> mapped_emotions. Emotion r = Str e))))
     \<and> (load_emotion_dataset_trainer (Inr df) = Inr rows
          \<longrightarrow> (\<forall>(r, l) \<in> set rows. l \<in> sentiments \<and> r \<in> set df
                 \<and> (\<exists>e \<in> mapped_emotions. Emotion r = Str e))
            \<and> (prepare_training_data sample' rows n = (texts, labels)
                 \<longrightarrow> length texts = length labels
                   \<and> (\<forall>(t, l) \<in> set (zip texts labels). l \<in> sentiments \<and> length t > 10
                        \<and> (\<exists>r \<in> set df. t = preprocess_text_trainer (Text r)
                              \<and> (\<exists>e \<in> mapped_emotions. Emotion r = Str e)))))"
proof (intro conjI impI)
  assume a: "load_emotion_dataset_fast85 sample (Inr df) = Inr (texts, labels)"
  then show "length texts = length labels"
    by (auto simp: load_emotion_dataset_fast85_def Let_def)
  show "\<forall>(t, l) \<in> set (zip texts labels). l \<in> sentiments \<and> length t > 10
          \<and> (\<exists>r \<in> set df. t = smart_preprocess_text (Text r)
                \<and> (\<exists>e \<in> mapped_emotions. Emotion r = Str e))"
    using fast85_pairs[OF assms(1) a] by blast
next
  assume a: "load_emotion_dataset_advanced sample (Inr df) = Inr (texts, labels)"
  then show "length texts = length labels"
    by (auto simp: load_emotion_dataset_advanced_def Let_def)
  show "\<forall>(t, l) \<in> set (zip texts labels). l \<in> sentiments \<and> length t > 10
          \<and> (\<exists>r \<in> set df. t = advanced_preprocess_text (Text r)
                \<and> (\<exists>e \<in> mapped_emotions. Emotion r = Str e))"
    using advanced_pairs[OF assms(1) a] by blast
next
  assume a: "load_emotion_dataset_trainer (Inr df) = Inr rows"
  show "\<forall>(r, l) \<in> set rows. l \<in> sentiments \<and> r \<in> set df
          \<and> (\<exists>e \<in> mapped_emotions. Emotion r = Str e)"
    using trainer_rows[OF a] by blast
  assume b: "prepare_training_data sample' rows n = (texts, labels)"
  then show "length texts = length labels"
    by (auto simp: prepare_training_data_def Let_def)
  show "\<forall>(t, l) \<in> set (zip texts labels). l \<in> sentiments \<and> length t > 10
          \<and> (\<exists>r \<in> set df. t = preprocess_text_trainer (Text r)
                \<and> (\<exists>e \<in> mapped_emotions. Emotion r = Str e))"
    using trainer_pairs[OF assms(2) a b] by blast
qed

lemma take_sampler: "sampler take"
  by (auto simp: sampler_def dest: in_set_takeD)

theorem loaded_pairs_labelled_and_long_witness:
  "sampler (take :: nat \<Rightarrow> (string \<times> string) list \<Rightarrow> (string \<times> string) list)
   \<and> sampler (take :: nat \<Rightarrow> (csv_row \<times> string) list \<Rightarrow> (csv_row \<times> string) list)
   \<and> load_emotion_dataset_fast85 take (Inr sample_frame)
       = Inr ([''i am so happy today!!''], [''positive''])
   \<and> load_emotion_dataset_advanced take (Inr sample_frame)
       = Inr ([''i am so happy today!!''], [''positive''])
   \<and> load_emotion_dataset_trainer (Inr sample_frame)
       = Inr [(\<lparr>Text = Str ''I am SO happy today!!'', Emotion = Str ''happy''\<rparr>, ''positive''),
              (\<lparr>Text = Str ''hi'', Emotion = Str ''happy''\<rparr>, ''positive'')]
   \<and> prepare_training_data take
         [(\<lparr>Text = Str ''I am SO happy today!!'', Emotion = Str ''happy''\<rparr>, ''positive''),
          (\<lparr>Text = Str ''hi'', Emotion = Str ''happy''\<rparr>, ''positive'')] 15000
       = ([''i am so happy today!!''], [''positive''])
   \<and> ''positive'' \<in> sentiments \<and> 10 < length ''i am so happy today!!''"
proof -
  have a: "load_emotion_dataset_fast85 take (Inr sample_frame)
       = Inr ([''i am so happy today!!''], [''positive''])" by code_simp
  have b: "load_emotion_dataset_advanced take (Inr sample_frame)
       = Inr ([''i am so happy today!!''], [''positive''])" by code_simp
  have c: "load_emotion_dataset_trainer (Inr sample_frame)
       = Inr [(\<lparr>Text = Str ''I am SO happy today!!'', Emotion = Str ''happy''\<rparr>, ''positive''),
              (\<lparr>Text = Str ''hi'', Emotion = Str ''happy''\<rparr>, ''positive'')]" by code_simp
  have d: "prepare_training_data take
         [(\<lparr>Text = Str ''I am SO happy today!!'', Emotion = Str ''happy''\<rparr>, ''positive''),
          (\<lparr>Text = Str ''hi'', Emotion = Str ''happy''\<rparr>, ''positive'')] 15000
       = ([''i am so happy today!!''], [''positive''])" by code_simp
  note t = loaded_pairs_labelled_and_long[OF take_sampler take_sampler, of sample_frame
      "[''i am so happy today!!'']" "[''positive'']"]
  from t a have "\<forall>(t, l) \<in> set (zip [''i am so happy today!!''] [''positive'']).
      l \<in> sentiments \<and> length t > 10
      \<and> (\<exists>r \<in> set sample_frame. t = smart_preprocess_text (Text r)
            \<and> (\<exists>e \<in> mapped_emotions. Emotion r = Str e))" by blast
  then have e: "''positive'' \<in> sentiments \<and> 10 < length ''i am so happy today!!''" by simp
  from e show ?thesis by (simp add: take_sampler a b c d)
qed

text \<open>The trainer's loader keeps a row whose cleaned text has two characters.\<close>

theorem trainer_loader_keeps_short_text:
  "load_emotion_dataset_trainer (Inr [\<lparr>Text = Str ''hi'', Emotion = Str ''happy''\<rparr>])
     = Inr [(\<lparr>Text = Str ''hi'', Emotion = Str ''happy''\<rparr>, ''positive'')]
   \<and> length (preprocess_text_trainer (Str ''hi'')) = 2"
  by code_simp

section \<open>Saving the artifacts\<close>

lemma paths_distinct:
  "n @ ''_ensemble.joblib'' \<noteq> n @ ''_scaler.joblib''"
  "n @ ''_ensemble.joblib'' \<noteq> n @ ''_tfidf.joblib''"
  "n @ ''_ensemble.joblib'' \<noteq> n @ ''_glove.joblib''"
  "n @ ''_scaler.joblib'' \<noteq> n @ ''_tfidf.joblib''"
  "n @ ''_scaler.joblib'' \<noteq> n @ ''_glove.joblib''"
  "n @ ''_tfidf.joblib'' \<noteq> n @ ''_glove.joblib''"
  by simp_all





section \<open>Conversion for the device\<close>





end
